theory Spec2Isabelle
  imports Main
begin

section \<open>The Binary adapter of psycopg (adapter_binary.c)\<close>

text \<open>
  A shallow embedding of \<^verbatim>\<open>psycopg/adapter_binary.c\<close>. The adapter is a C struct with
  three object pointers (\<^verbatim>\<open>wrapped\<close>, \<^verbatim>\<open>buffer\<close>, \<^verbatim>\<open>conn\<close>); a pointer is an
  \<open>option\<close>, \<open>None\<close> being \<^verbatim>\<open>NULL\<close>. Each method takes the struct and returns an
  outcome: the returned pointer, the interpreter's error indicator, the struct as the
  call left it, and the calls made into libpq with what they returned. Reference
  counts are not modelled.
\<close>

subsection \<open>Python objects\<close>

type_synonym PGconn = nat

text \<open>
  The two fields of \<^verbatim>\<open>connectionObject\<close> that the adapter reads: the libpq handle
  (\<^verbatim>\<open>NULL\<close> once the connection is closed) and the C int \<^verbatim>\<open>equote\<close>.
\<close>

record connectionObject =
  pgconn :: "PGconn option"
  equote :: int

datatype pyerr =
    PyExc_TypeError string
  | PyExc_MemoryError
  | PyExc_BufferError string

text \<open>
  The objects an adapter can meet. A buffer object carries what reading it gives: its
  bytes, or the error that \<^verbatim>\<open>PyObject_AsReadBuffer\<close> sets for it. Strings are byte
  strings (Python 2 \<^verbatim>\<open>str\<close>); equality of type objects stands for pointer identity.
\<close>

datatype pyobj =
    Py_None
  | PyInt int
  | PyString string
  | PyUnicode string
  | PyBuffer "pyerr + string"
  | PyConnection connectionObject
  | PyTypeObject string

fun PyString_Check :: "pyobj \<Rightarrow> bool" where
  "PyString_Check (PyString s) = True"
| "PyString_Check x = False"

fun PyBuffer_Check :: "pyobj \<Rightarrow> bool" where
  "PyBuffer_Check (PyBuffer b) = True"
| "PyBuffer_Check x = False"

text \<open>
  \<^verbatim>\<open>PyObject_AsReadBuffer\<close> is the interpreter's: a string gives its bytes and cannot
  fail, a buffer object gives its bytes or fails. The adapter calls it on strings and
  buffers only; the last equation is what the interpreter answers for an object without
  the buffer interface.
\<close>

fun PyObject_AsReadBuffer :: "pyobj \<Rightarrow> pyerr + string" where
  "PyObject_AsReadBuffer (PyString s) = Inr s"
| "PyObject_AsReadBuffer (PyBuffer b) = b"
| "PyObject_AsReadBuffer x = Inl (PyExc_TypeError ''expected a readable buffer object'')"

text \<open>
  \<^verbatim>\<open>PyArg_ParseTuple(args, "O", &x)\<close>: the argument tuple must hold exactly one object,
  which is stored as it is, whatever its type (the pointer stored is never \<^verbatim>\<open>NULL\<close>).
  The interpreter's message also counts the arguments given, which is left out here.
\<close>

fun PyArg_ParseTuple_O :: "pyobj list \<Rightarrow> pyerr + pyobj option" where
  "PyArg_ParseTuple_O [x] = Inr (Some x)"
| "PyArg_ParseTuple_O args = Inl (PyExc_TypeError ''function takes exactly 1 argument'')"

text \<open>The type object of the ISQLQuote protocol, declared in microprotocols_proto.h.\<close>

definition isqlquoteType :: pyobj where
  "isqlquoteType = PyTypeObject ''psycopg2._psycopg.ISQLQuote''"

subsection \<open>libpq\<close>

text \<open>
  libpq is a parameter of the model: the version the module is compiled against and
  the two escaping routines. A routine returns \<open>None\<close> for \<^verbatim>\<open>NULL\<close> (no memory), or
  the buffer it allocated together with the length it stores in \<^verbatim>\<open>*to_length\<close>.
\<close>

record libpq =
  PG_VERSION_HEX :: nat
  PQescapeBytea :: "string \<Rightarrow> (string \<times> nat) option"
  PQescapeByteaConn :: "PGconn \<Rightarrow> string \<Rightarrow> (string \<times> nat) option"

datatype libpq_call =
    PQescapeBytea_call string "(string \<times> nat) option"
  | PQescapeByteaConn_call PGconn string "(string \<times> nat) option"

fun call_result :: "libpq_call \<Rightarrow> (string \<times> nat) option" where
  "call_result (PQescapeBytea_call frm r) = r"
| "call_result (PQescapeByteaConn_call c frm r) = r"

fun is_conn_aware :: "libpq_call \<Rightarrow> bool" where
  "is_conn_aware (PQescapeBytea_call frm r) = False"
| "is_conn_aware (PQescapeByteaConn_call c frm r) = True"

subsection \<open>The quoting code\<close>

text \<open>
  \<^verbatim>\<open>binary_escape\<close>: the connection-aware routine when the module is compiled against
  libpq 8.1.4 or later and a handle is given, the context-free routine otherwise. The
  result comes with the record of the call made.
\<close>

definition binary_escape ::
  "libpq \<Rightarrow> string \<Rightarrow> PGconn option \<Rightarrow> (string \<times> nat) option \<times> libpq_call" where
  "binary_escape lib frm pgc =
     (if 0x080104 \<le> PG_VERSION_HEX lib then
        (case pgc of
           Some c \<Rightarrow> (PQescapeByteaConn lib c frm,
                      PQescapeByteaConn_call c frm (PQescapeByteaConn lib c frm))
         | None \<Rightarrow> (PQescapeBytea lib frm, PQescapeBytea_call frm (PQescapeBytea lib frm)))
      else (PQescapeBytea lib frm, PQescapeBytea_call frm (PQescapeBytea lib frm)))"

text \<open>What \<^verbatim>\<open>%s\<close> reads from a C buffer: the bytes before the first zero byte.\<close>

definition cstr :: "string \<Rightarrow> string" where
  "cstr to = takeWhile (\<lambda>c. c \<noteq> CHR 0x00) to"

definition sq :: char where
  "sq = CHR 0x27"

text \<open>
  The two calls that build the literal: \<^verbatim>\<open>PyString_FromFormat\<close> with one of the two
  formats \<^verbatim>\<open>E'%s'::bytea\<close> and \<^verbatim>\<open>'%s'::bytea\<close>, and \<^verbatim>\<open>PyString_FromString("''::bytea")\<close>.
  The interpreter's own allocation of the new string is taken to succeed.
\<close>

definition format_bytea :: "bool \<Rightarrow> string \<Rightarrow> string" where
  "format_bytea e to =
     (if e then ''E'' @ [sq] @ cstr to @ [sq] @ ''::bytea''
      else [sq] @ cstr to @ [sq] @ ''::bytea'')"

definition empty_bytea :: string where
  "empty_bytea = [sq, sq] @ ''::bytea''"

subsection \<open>The adapter object\<close>

record binaryObject =
  wrapped :: "pyobj option"
  buffer :: "pyobj option"
  conn :: "pyobj option"

text \<open>What a method hands back: a reference to the adapter itself or to another object.\<close>

datatype pyref = Ref_self | Ref pyobj

record outcome =
  retval :: "pyref option"
  curexc :: "pyerr option"
  self_after :: binaryObject
  libpq_calls :: "libpq_call list"

text \<open>
  Reading the fields of a \<^verbatim>\<open>connectionObject\<close> through a pointer to an object that is
  not one, or the type of a \<^verbatim>\<open>NULL\<close> object, has no defined result in C.
\<close>

datatype 'a cres = Undefined | Returns 'a

text \<open>
  \<^verbatim>\<open>binary_quote\<close> casts \<^verbatim>\<open>self->conn\<close> to \<^verbatim>\<open>connectionObject*\<close> whenever the pointer
  is not \<^verbatim>\<open>NULL\<close>, without a type check.
\<close>

fun the_conn :: "pyobj option \<Rightarrow> connectionObject option cres" where
  "the_conn None = Returns None"
| "the_conn (Some (PyConnection co)) = Returns (Some co)"
| "the_conn (Some x) = Undefined"

text \<open>\<^verbatim>\<open>self->conn ? ((connectionObject*)self->conn)->pgconn : NULL\<close>\<close>

fun conn_pgconn :: "connectionObject option \<Rightarrow> PGconn option" where
  "conn_pgconn None = None"
| "conn_pgconn (Some co) = pgconn co"

text \<open>\<^verbatim>\<open>self->conn && ((connectionObject*)self->conn)->equote\<close>\<close>

fun conn_equote :: "connectionObject option \<Rightarrow> bool" where
  "conn_equote None = False"
| "conn_equote (Some co) = (equote co \<noteq> 0)"

definition raise :: "pyerr \<Rightarrow> binaryObject \<Rightarrow> libpq_call list \<Rightarrow> outcome" where
  "raise e self cs = \<lparr>retval = None, curexc = Some e, self_after = self, libpq_calls = cs\<rparr>"

definition binary_quote :: "libpq \<Rightarrow> binaryObject \<Rightarrow> outcome cres" where
  "binary_quote lib self =
     (case wrapped self of
        None \<Rightarrow> Undefined
      | Some w \<Rightarrow>
          if PyString_Check w \<or> PyBuffer_Check w then
            (case PyObject_AsReadBuffer w of
               Inl e \<Rightarrow> Returns (raise e self [])
             | Inr buf \<Rightarrow>
                 (case the_conn (conn self) of
                    Undefined \<Rightarrow> Undefined
                  | Returns co \<Rightarrow>
                      (case binary_escape lib buf (conn_pgconn co) of
                         (None, call) \<Rightarrow> Returns (raise PyExc_MemoryError self [call])
                       | (Some (to, len), call) \<Rightarrow>
                           let lit = (if len > 0 then format_bytea (conn_equote co) to
                                      else empty_bytea);
                               self' = self\<lparr>buffer := Some (PyString lit)\<rparr>
                           in Returns \<lparr>retval = map_option Ref (buffer self'),
                                       curexc = None, self_after = self',
                                       libpq_calls = [call]\<rparr>)))
          else Returns (raise (PyExc_TypeError ''can't escape non-string object'') self []))"

text \<open>
  \<^verbatim>\<open>binary_str\<close> quotes only when \<^verbatim>\<open>self->buffer\<close> is \<^verbatim>\<open>NULL\<close>, drops what
  \<^verbatim>\<open>binary_quote\<close> returns and hands back \<^verbatim>\<open>self->buffer\<close>; the error indicator is
  whatever \<^verbatim>\<open>binary_quote\<close> left.
\<close>

definition binary_str :: "libpq \<Rightarrow> binaryObject \<Rightarrow> outcome cres" where
  "binary_str lib self =
     (if buffer self = None then
        (case binary_quote lib self of
           Undefined \<Rightarrow> Undefined
         | Returns q \<Rightarrow>
             Returns \<lparr>retval = map_option Ref (buffer (self_after q)), curexc = curexc q,
                      self_after = self_after q, libpq_calls = libpq_calls q\<rparr>)
      else Returns \<lparr>retval = map_option Ref (buffer self), curexc = None,
                    self_after = self, libpq_calls = []\<rparr>)"

definition binary_getquoted :: "libpq \<Rightarrow> binaryObject \<Rightarrow> outcome cres" where
  "binary_getquoted lib self = binary_str lib self"

text \<open>
  \<^verbatim>\<open>binary_prepare\<close>: the parsed pointer is tested against \<^verbatim>\<open>NULL\<close> before it is
  stored; when it is \<^verbatim>\<open>NULL\<close> the field keeps the pointer it had.
\<close>

definition binary_prepare :: "binaryObject \<Rightarrow> pyobj list \<Rightarrow> outcome" where
  "binary_prepare self args =
     (case PyArg_ParseTuple_O args of
        Inl e \<Rightarrow> raise e self []
      | Inr c \<Rightarrow>
          \<lparr>retval = Some (Ref Py_None), curexc = None,
           self_after = (case c of Some x \<Rightarrow> self\<lparr>conn := Some x\<rparr> | None \<Rightarrow> self),
           libpq_calls = []\<rparr>)"

definition binary_conform :: "binaryObject \<Rightarrow> pyobj list \<Rightarrow> outcome" where
  "binary_conform self args =
     (case PyArg_ParseTuple_O args of
        Inl e \<Rightarrow> raise e self []
      | Inr proto \<Rightarrow>
          \<lparr>retval = Some (if proto = Some isqlquoteType then Ref_self else Ref Py_None),
           curexc = None, self_after = self, libpq_calls = []\<rparr>)"

subsection \<open>Construction\<close>

definition binary_setup :: "binaryObject \<Rightarrow> pyobj option \<Rightarrow> int \<times> binaryObject" where
  "binary_setup self str = (0, self\<lparr>buffer := None, conn := None, wrapped := str\<rparr>)"

text \<open>\<^verbatim>\<open>binary_new\<close>: \<^verbatim>\<open>tp_alloc\<close> hands out zeroed memory.\<close>

definition binary_new :: binaryObject where
  "binary_new = \<lparr>wrapped = None, buffer = None, conn = None\<rparr>"

definition binary_init :: "binaryObject \<Rightarrow> pyobj list \<Rightarrow> int \<times> binaryObject" where
  "binary_init self args =
     (case PyArg_ParseTuple_O args of
        Inl e \<Rightarrow> (- 1, self)
      | Inr str \<Rightarrow> binary_setup self str)"

text \<open>\<^verbatim>\<open>Binary(x)\<close>: a new object, initialised.\<close>

definition Binary :: "pyobj \<Rightarrow> binaryObject" where
  "Binary x = snd (binary_init binary_new [x])"

subsection \<open>Sequences of method calls\<close>

text \<open>
  The methods a caller has on a constructed adapter: \<^verbatim>\<open>prepare\<close>, \<^verbatim>\<open>getquoted\<close>,
  \<^verbatim>\<open>str()\<close> and \<^verbatim>\<open>__conform__\<close>. Each call of a quoting method comes with the libpq
  behaviour it meets, so that memory may run out in one call and not in the next. A
  sequence stops, with no state, at a call whose behaviour is undefined.
\<close>

datatype adapter_op =
    Op_prepare "pyobj list"
  | Op_getquoted libpq
  | Op_str libpq
  | Op_conform "pyobj list"

fun defined_state :: "outcome cres \<Rightarrow> binaryObject option" where
  "defined_state Undefined = None"
| "defined_state (Returns r) = Some (self_after r)"

fun step :: "adapter_op \<Rightarrow> binaryObject \<Rightarrow> binaryObject option" where
  "step (Op_prepare args) self = Some (self_after (binary_prepare self args))"
| "step (Op_getquoted lib) self = defined_state (binary_getquoted lib self)"
| "step (Op_str lib) self = defined_state (binary_str lib self)"
| "step (Op_conform args) self = Some (self_after (binary_conform self args))"

fun run_ops :: "adapter_op list \<Rightarrow> binaryObject \<Rightarrow> binaryObject option" where
  "run_ops [] self = Some self"
| "run_ops (a # as) self =
     (case step a self of None \<Rightarrow> None | Some self' \<Rightarrow> run_ops as self')"

fun is_prepare :: "adapter_op \<Rightarrow> bool" where
  "is_prepare (Op_prepare args) = True"
| "is_prepare a = False"

subsection \<open>Sample libpq behaviours\<close>

text \<open>
  Two behaviours of libpq on which the examples below are evaluated. The first escapes
  in the style of \<^verbatim>\<open>PQescapeBytea\<close> (a quote is doubled, a backslash becomes four;
  libpq also writes the bytes outside the printable range in octal, which no example
  here needs) and, as libpq documents, stores in \<^verbatim>\<open>*to_length\<close> the length of the
  result including its terminating zero byte. The second has no memory left.
\<close>

definition escape_sample :: "string \<Rightarrow> string" where
  "escape_sample frm =
     concat (map (\<lambda>c. if c = sq then [sq, sq]
                       else if c = CHR 0x5C then replicate 4 (CHR 0x5C)
                       else [c]) frm)"

definition libpq_sample :: libpq where
  "libpq_sample =
     \<lparr>PG_VERSION_HEX = 0x090000,
      PQescapeBytea = (\<lambda>frm. Some (escape_sample frm @ [CHR 0x00],
                                     Suc (length (escape_sample frm)))),
      PQescapeByteaConn = (\<lambda>c frm. Some (escape_sample frm @ [CHR 0x00],
                                           Suc (length (escape_sample frm))))\<rparr>"

definition libpq_no_memory :: libpq where
  "libpq_no_memory =
     \<lparr>PG_VERSION_HEX = 0x090000,
      PQescapeBytea = (\<lambda>frm. None),
      PQescapeByteaConn = (\<lambda>c frm. None)\<rparr>"

section \<open>Properties\<close>

subsection \<open>What each method does to the adapter\<close>

lemma binary_getquoted_cached:
  "buffer self = Some b \<Longrightarrow>
   binary_getquoted lib self =
     Returns \<lparr>retval = Some (Ref b), curexc = None, self_after = self, libpq_calls = []\<rparr>"
  by (simp add: binary_getquoted_def binary_str_def)

lemma binary_quote_escaped:
  assumes "wrapped self = Some w" and "PyString_Check w \<or> PyBuffer_Check w"
    and "PyObject_AsReadBuffer w = Inr frm" and "the_conn (conn self) = Returns co"
    and "binary_escape lib frm (conn_pgconn co) = (Some (to, len), call)"
  shows "binary_quote lib self =
     Returns \<lparr>retval = Some (Ref (PyString (if 0 < len then format_bytea (conn_equote co) to
                                             else empty_bytea))),
              curexc = None,
              self_after = self\<lparr>buffer := Some (PyString (if 0 < len
                                     then format_bytea (conn_equote co) to else empty_bytea))\<rparr>,
              libpq_calls = [call]\<rparr>"
  using assms by (simp add: binary_quote_def Let_def)

lemma binary_quote_no_memory:
  assumes "wrapped self = Some w" and "PyString_Check w \<or> PyBuffer_Check w"
    and "PyObject_AsReadBuffer w = Inr frm" and "the_conn (conn self) = Returns co"
    and "binary_escape lib frm (conn_pgconn co) = (None, call)"
  shows "binary_quote lib self = Returns (raise PyExc_MemoryError self [call])"
  using assms by (simp add: binary_quote_def)

lemma binary_quote_not_string:
  assumes "wrapped self = Some w" and "\<not> PyString_Check w" and "\<not> PyBuffer_Check w"
  shows "binary_quote lib self =
     Returns (raise (PyExc_TypeError ''can't escape non-string object'') self [])"
  using assms by (simp add: binary_quote_def)

lemma binary_getquoted_fresh:
  "buffer self = None \<Longrightarrow>
   binary_getquoted lib self =
     (case binary_quote lib self of
        Undefined \<Rightarrow> Undefined
      | Returns q \<Rightarrow>
          Returns \<lparr>retval = map_option Ref (buffer (self_after q)), curexc = curexc q,
                   self_after = self_after q, libpq_calls = libpq_calls q\<rparr>)"
  by (simp add: binary_getquoted_def binary_str_def)

lemma binary_quote_cases:
  assumes "binary_quote lib self = Returns q"
  shows "(self_after q = self \<and> retval q = None \<and> curexc q \<noteq> None \<and>
            (\<forall>c \<in> set (libpq_calls q). call_result c = None)) \<or>
         (\<exists>c to len e. libpq_calls q = [c] \<and> call_result c = Some (to, len) \<and> curexc q = None \<and>
            self_after q = self\<lparr>buffer := Some (PyString (if 0 < len then format_bytea e to
                                                            else empty_bytea))\<rparr>)"
  using assms
  by (auto simp: binary_quote_def raise_def binary_escape_def Let_def
           split: option.splits if_splits sum.splits cres.splits prod.splits)

lemma Binary_fields:
  "Binary x = \<lparr>wrapped = Some x, buffer = None, conn = None\<rparr>"
  by (simp add: Binary_def binary_init_def binary_setup_def binary_new_def)

lemma binary_str_getquoted: "binary_str lib self = binary_getquoted lib self"
  by (simp add: binary_getquoted_def)

lemma binary_getquoted_frame:
  assumes "binary_getquoted lib self = Returns r"
  shows "wrapped (self_after r) = wrapped self \<and> conn (self_after r) = conn self"
proof (cases "buffer self")
  case None
  with assms obtain q where q: "binary_quote lib self = Returns q" and r: "self_after r = self_after q"
    by (auto simp: binary_getquoted_fresh split: cres.splits)
  from binary_quote_cases [OF q] r show ?thesis by auto
next
  case (Some b)
  with assms show ?thesis by (auto simp: binary_getquoted_cached)
qed

lemma binary_prepare_frame:
  "wrapped (self_after (binary_prepare self args)) = wrapped self \<and>
   buffer (self_after (binary_prepare self args)) = buffer self"
  by (simp add: binary_prepare_def raise_def split: sum.splits option.splits)

lemma binary_conform_frame: "self_after (binary_conform self args) = self"
  by (simp add: binary_conform_def raise_def split: sum.splits)

lemma step_wrapped: "step a self = Some self' \<Longrightarrow> wrapped self' = wrapped self"
proof (cases a)
  case (Op_prepare args)
  then show "step a self = Some self' \<Longrightarrow> wrapped self' = wrapped self"
    using binary_prepare_frame [of self args] by auto
next
  case (Op_getquoted lib)
  assume "step a self = Some self'"
  with Op_getquoted obtain r where "binary_getquoted lib self = Returns r" "self' = self_after r"
    by (cases "binary_getquoted lib self") auto
  then show "wrapped self' = wrapped self" using binary_getquoted_frame by simp
next
  case (Op_str lib)
  assume "step a self = Some self'"
  with Op_str obtain r where "binary_getquoted lib self = Returns r" "self' = self_after r"
    by (cases "binary_getquoted lib self") (auto simp: binary_str_getquoted)
  then show "wrapped self' = wrapped self" using binary_getquoted_frame by simp
next
  case (Op_conform args)
  then show "step a self = Some self' \<Longrightarrow> wrapped self' = wrapped self"
    using binary_conform_frame [of self args] by auto
qed

lemma run_ops_wrapped: "run_ops ops self = Some self' \<Longrightarrow> wrapped self' = wrapped self"
proof (induction ops arbitrary: self)
  case Nil
  then show ?case by simp
next
  case (Cons a ops)
  then obtain s1 where s1: "step a self = Some s1" and rest: "run_ops ops s1 = Some self'"
    by (auto split: option.splits)
  from Cons.IH [OF rest] step_wrapped [OF s1] show ?case by simp
qed

lemma binary_getquoted_not_string:
  assumes "buffer self = None" "wrapped self = Some w" "\<not> PyString_Check w" "\<not> PyBuffer_Check w"
  shows "binary_getquoted lib self =
     Returns \<lparr>retval = None, curexc = Some (PyExc_TypeError ''can't escape non-string object''),
              self_after = self, libpq_calls = []\<rparr>"
  using assms by (simp add: binary_getquoted_fresh binary_quote_not_string raise_def)

lemma step_not_string_buffer:
  assumes "step a self = Some self'" "buffer self = None" "wrapped self = Some w"
    "\<not> PyString_Check w" "\<not> PyBuffer_Check w"
  shows "buffer self' = None"
proof (cases a)
  case (Op_prepare args)
  with assms show ?thesis using binary_prepare_frame [of self args] by auto
next
  case (Op_getquoted lib)
  with assms show ?thesis by (auto simp: binary_getquoted_not_string)
next
  case (Op_str lib)
  with assms show ?thesis by (auto simp: binary_str_getquoted binary_getquoted_not_string)
next
  case (Op_conform args)
  with assms show ?thesis using binary_conform_frame [of self args] by auto
qed

lemma run_ops_not_string_buffer:
  assumes "run_ops ops self = Some self'" "buffer self = None" "wrapped self = Some w"
    "\<not> PyString_Check w" "\<not> PyBuffer_Check w"
  shows "buffer self' = None"
  using assms
proof (induction ops arbitrary: self)
  case Nil
  then show ?case by simp
next
  case (Cons a ops)
  then obtain s1 where s1: "step a self = Some s1" and rest: "run_ops ops s1 = Some self'"
    by (auto split: option.splits)
  have b1: "buffer s1 = None"
    using step_not_string_buffer [OF s1 Cons.prems(2,3,4,5)] .
  have w1: "wrapped s1 = Some w" using step_wrapped [OF s1] Cons.prems(3) by simp
  show ?case using Cons.IH [OF rest b1 w1 Cons.prems(4,5)] .
qed

lemma binary_getquoted_escaped:
  assumes "buffer self = None" and "wrapped self = Some w"
    and "PyString_Check w \<or> PyBuffer_Check w"
    and "PyObject_AsReadBuffer w = Inr frm" and "the_conn (conn self) = Returns co"
    and "binary_escape lib frm (conn_pgconn co) = (Some (to, len), call)"
  shows "binary_getquoted lib self =
     Returns \<lparr>retval = Some (Ref (PyString (if 0 < len then format_bytea (conn_equote co) to
                                             else empty_bytea))),
              curexc = None,
              self_after = self\<lparr>buffer := Some (PyString (if 0 < len
                                     then format_bytea (conn_equote co) to else empty_bytea))\<rparr>,
              libpq_calls = [call]\<rparr>"
  using assms(1) binary_quote_escaped [OF assms(2-6)]
  by (simp add: binary_getquoted_fresh)

lemma binary_prepare_one:
  "binary_prepare self [c] =
     \<lparr>retval = Some (Ref Py_None), curexc = None,
      self_after = self\<lparr>conn := Some c\<rparr>, libpq_calls = []\<rparr>"
  by (simp add: binary_prepare_def)

lemma binary_prepare_never_unbinds:
  "conn (self_after (binary_prepare self args)) = None \<Longrightarrow> conn self = None"
  by (simp add: binary_prepare_def raise_def split: sum.splits option.splits)

lemma binary_getquoted_unbound:
  assumes "binary_getquoted lib self = Returns r" and "conn self = None"
    and "buffer self = None \<or> (\<exists>p. buffer self = Some (PyString ([sq] @ p @ [sq] @ ''::bytea'')))"
  shows "buffer (self_after r) = None \<or>
         (\<exists>p. buffer (self_after r) = Some (PyString ([sq] @ p @ [sq] @ ''::bytea'')))"
proof (cases "buffer self")
  case (Some b)
  with assms show ?thesis by (auto simp: binary_getquoted_cached)
next
  case None
  with assms(1) obtain q where q: "binary_quote lib self = Returns q"
    and r: "self_after r = self_after q"
    by (auto simp: binary_getquoted_fresh split: cres.splits)
  from q assms(2) None
  have "buffer (self_after q) = None \<or>
        (\<exists>to. buffer (self_after q) = Some (PyString (format_bytea False to))) \<or>
        buffer (self_after q) = Some (PyString empty_bytea)"
    by (auto simp: binary_quote_def raise_def Let_def
             split: option.splits if_splits sum.splits prod.splits)
  then consider "buffer (self_after q) = None"
    | to where "buffer (self_after q) = Some (PyString (format_bytea False to))"
    | "buffer (self_after q) = Some (PyString empty_bytea)"
    by auto
  then show ?thesis
  proof cases
    case 1
    then show ?thesis using r by simp
  next
    case 2
    then have "buffer (self_after r) = Some (PyString ([sq] @ cstr to @ [sq] @ ''::bytea''))"
      using r by (simp add: format_bytea_def)
    then show ?thesis by blast
  next
    case 3
    then have "buffer (self_after r) = Some (PyString ([sq] @ [] @ [sq] @ ''::bytea''))"
      using r by (simp add: empty_bytea_def)
    then show ?thesis by blast
  qed
qed

lemma step_unbound:
  assumes "step a self = Some self'" and "\<not> is_prepare a" and "conn self = None"
    and "buffer self = None \<or> (\<exists>p. buffer self = Some (PyString ([sq] @ p @ [sq] @ ''::bytea'')))"
  shows "conn self' = None \<and>
     (buffer self' = None \<or> (\<exists>p. buffer self' = Some (PyString ([sq] @ p @ [sq] @ ''::bytea''))))"
proof (cases a)
  case (Op_prepare args)
  with assms(2) show ?thesis by simp
next
  case (Op_getquoted lib)
  with assms(1) obtain r where r: "binary_getquoted lib self = Returns r" "self' = self_after r"
    by (cases "binary_getquoted lib self") auto
  show ?thesis
    using binary_getquoted_unbound [OF r(1) assms(3,4)] binary_getquoted_frame [OF r(1)] r(2) assms(3)
    by simp
next
  case (Op_str lib)
  with assms(1) obtain r where r: "binary_getquoted lib self = Returns r" "self' = self_after r"
    by (cases "binary_getquoted lib self") (auto simp: binary_str_getquoted)
  show ?thesis
    using binary_getquoted_unbound [OF r(1) assms(3,4)] binary_getquoted_frame [OF r(1)] r(2) assms(3)
    by simp
next
  case (Op_conform args)
  with assms show ?thesis using binary_conform_frame [of self args] by auto
qed

lemma run_ops_unbound:
  assumes "run_ops ops self = Some self'" and "\<forall>a \<in> set ops. \<not> is_prepare a"
    and "conn self = None"
    and "buffer self = None \<or> (\<exists>p. buffer self = Some (PyString ([sq] @ p @ [sq] @ ''::bytea'')))"
  shows "conn self' = None \<and>
     (buffer self' = None \<or> (\<exists>p. buffer self' = Some (PyString ([sq] @ p @ [sq] @ ''::bytea''))))"
  using assms
proof (induction ops arbitrary: self)
  case Nil
  then show ?case by simp
next
  case (Cons a ops)
  then obtain s1 where s1: "step a self = Some s1" and rest: "run_ops ops s1 = Some self'"
    by (auto split: option.splits)
  have na: "\<not> is_prepare a" and nops: "\<forall>a \<in> set ops. \<not> is_prepare a"
    using Cons.prems(2) by simp_all
  from step_unbound [OF s1 na Cons.prems(3,4)]
  have c1: "conn s1 = None"
    and b1: "buffer s1 = None \<or> (\<exists>p. buffer s1 = Some (PyString ([sq] @ p @ [sq] @ ''::bytea'')))"
    by simp_all
  show ?case using Cons.IH [OF rest nops c1 b1] .
qed

subsection \<open>The empty literal\<close>

text \<open>
  C1: an adapter wrapping a zero-length byte sequence should return exactly
  \<^verbatim>\<open>''::bytea\<close> from \<^verbatim>\<open>getquoted\<close> whatever its binding, and \<^verbatim>\<open>binary_quote\<close> has a branch
  for it: \<^verbatim>\<open>else self->buffer = PyString_FromString("''::bytea")\<close>. The branch is taken
  on \<^verbatim>\<open>len > 0\<close>, and libpq stores in \<^verbatim>\<open>*to_length\<close> the length of the result including
  its terminating zero byte, so for the empty value \<^verbatim>\<open>len\<close> is 1 and the format branch
  runs. Evaluated on the empty string: bound to a connection with \<^verbatim>\<open>equote\<close> set, the
  literal is \<^verbatim>\<open>E''::bytea\<close>; unbound, it is \<^verbatim>\<open>''::bytea\<close>, through the format branch as
  well.
\<close>

theorem getquoted_empty_equote:
  "binary_getquoted libpq_sample
     (self_after (binary_prepare (Binary (PyString []))
                    [PyConnection \<lparr>pgconn = Some 1, equote = 1\<rparr>])) =
   Returns \<lparr>retval = Some (Ref (PyString (''E'' @ [sq, sq] @ ''::bytea''))),
            curexc = None,
            self_after = \<lparr>wrapped = Some (PyString []),
                          buffer = Some (PyString (''E'' @ [sq, sq] @ ''::bytea'')),
                          conn = Some (PyConnection \<lparr>pgconn = Some 1, equote = 1\<rparr>)\<rparr>,
            libpq_calls = [PQescapeByteaConn_call 1 [] (Some ([CHR 0x00], 1))]\<rparr>
   \<and> ''E'' @ [sq, sq] @ ''::bytea'' \<noteq> empty_bytea
   \<and> binary_getquoted libpq_sample (Binary (PyString [])) =
     Returns \<lparr>retval = Some (Ref (PyString empty_bytea)), curexc = None,
              self_after = \<lparr>wrapped = Some (PyString []),
                            buffer = Some (PyString empty_bytea), conn = None\<rparr>,
              libpq_calls = [PQescapeBytea_call [] (Some ([CHR 0x00], 1))]\<rparr>"
  by (simp add: Binary_fields binary_prepare_def binary_getquoted_def binary_str_def
      binary_quote_def binary_escape_def libpq_sample_def escape_sample_def format_bytea_def
      cstr_def empty_bytea_def sq_def Let_def)

subsection \<open>The prefix of the literal\<close>




subsection \<open>Values that are not strings\<close>

text \<open>
  C3: on every adapter constructed around a value that is neither a string nor a
  buffer, after any sequence of method calls, \<^verbatim>\<open>getquoted\<close> fails with the TypeError
  "can't escape non-string object" and leaves the adapter, and so its \<^verbatim>\<open>buffer\<close> field,
  exactly as it was; that field is still \<^verbatim>\<open>NULL\<close>.
\<close>

theorem getquoted_non_string:
  assumes "run_ops ops (Binary x) = Some self"
    and "\<not> PyString_Check x" and "\<not> PyBuffer_Check x"
  shows "buffer self = None \<and>
     binary_getquoted lib self =
       Returns \<lparr>retval = None,
                curexc = Some (PyExc_TypeError ''can't escape non-string object''),
                self_after = self, libpq_calls = []\<rparr>"
proof -
  have w: "wrapped self = Some x"
    using run_ops_wrapped [OF assms(1)] by (simp add: Binary_fields)
  have b: "buffer self = None"
    using run_ops_not_string_buffer [OF assms(1) _ _ assms(2,3)] by (simp add: Binary_fields)
  show ?thesis using b binary_getquoted_not_string [OF b w assms(2,3)] by simp
qed

theorem getquoted_non_string_witness:
  "run_ops [Op_prepare [PyConnection \<lparr>pgconn = Some 1, equote = 0\<rparr>], Op_str libpq_sample]
     (Binary (PyInt 42)) =
     Some \<lparr>wrapped = Some (PyInt 42), buffer = None,
           conn = Some (PyConnection \<lparr>pgconn = Some 1, equote = 0\<rparr>)\<rparr>
   \<and> binary_getquoted libpq_sample
       \<lparr>wrapped = Some (PyInt 42), buffer = None,
        conn = Some (PyConnection \<lparr>pgconn = Some 1, equote = 0\<rparr>)\<rparr> =
     Returns \<lparr>retval = None,
              curexc = Some (PyExc_TypeError ''can't escape non-string object''),
              self_after = \<lparr>wrapped = Some (PyInt 42), buffer = None,
                            conn = Some (PyConnection \<lparr>pgconn = Some 1, equote = 0\<rparr>)\<rparr>,
              libpq_calls = []\<rparr>"
proof -
  have run: "run_ops [Op_prepare [PyConnection \<lparr>pgconn = Some 1, equote = 0\<rparr>], Op_str libpq_sample]
     (Binary (PyInt 42)) =
     Some \<lparr>wrapped = Some (PyInt 42), buffer = None,
           conn = Some (PyConnection \<lparr>pgconn = Some 1, equote = 0\<rparr>)\<rparr>"
    by (simp add: Binary_fields binary_prepare_def binary_str_def binary_quote_def raise_def)
  show ?thesis using run getquoted_non_string [OF run, of libpq_sample] by simp
qed

subsection \<open>Quoting twice\<close>

text \<open>
  C4 (as amended): for every adapter wrapping a readable string or buffer, its
  connection reference being \<^verbatim>\<open>NULL\<close> or a connection, when the escaping routine does
  not run out of memory in the first call, two calls of \<^verbatim>\<open>getquoted\<close> in a row return
  the same object, which the first call leaves in the \<^verbatim>\<open>buffer\<close> field; the second call
  returns it without touching the adapter, and the escaping routines are called at
  most once over the two calls, whatever libpq would do in the second call.
\<close>

theorem getquoted_twice:
  assumes "wrapped self = Some w" and "PyString_Check w \<or> PyBuffer_Check w"
    and "PyObject_AsReadBuffer w = Inr frm" and "the_conn (conn self) = Returns co"
    and "fst (binary_escape lib1 frm (conn_pgconn co)) \<noteq> None"
  shows "\<exists>r1 r2 b.
     binary_getquoted lib1 self = Returns r1 \<and>
     binary_getquoted lib2 (self_after r1) = Returns r2 \<and>
     retval r1 = Some (Ref b) \<and> retval r2 = Some (Ref b) \<and>
     buffer (self_after r1) = Some b \<and>
     curexc r1 = None \<and> curexc r2 = None \<and>
     self_after r2 = self_after r1 \<and>
     libpq_calls r2 = [] \<and>
     length (libpq_calls r1 @ libpq_calls r2) \<le> 1"
proof (cases "buffer self")
  case (Some b)
  show ?thesis
    using Some binary_getquoted_cached [OF Some, of lib1]
      binary_getquoted_cached [OF Some, of lib2]
    by simp
next
  case None
  from assms(5) obtain to len call
    where esc: "binary_escape lib1 frm (conn_pgconn co) = (Some (to, len), call)"
    by (cases "binary_escape lib1 frm (conn_pgconn co)") auto
  let ?lit = "PyString (if 0 < len then format_bytea (conn_equote co) to else empty_bytea)"
  have first: "binary_getquoted lib1 self =
      Returns \<lparr>retval = Some (Ref ?lit), curexc = None,
               self_after = self\<lparr>buffer := Some ?lit\<rparr>, libpq_calls = [call]\<rparr>"
    using binary_getquoted_escaped [OF None assms(1-4) esc] .
  have cached: "buffer (self\<lparr>buffer := Some ?lit\<rparr>) = Some ?lit" by simp
  show ?thesis
    using first cached binary_getquoted_cached [OF cached, of lib2] by simp
qed

theorem getquoted_twice_witness:
  "\<exists>r1 r2 b.
     binary_getquoted libpq_sample (Binary (PyString ''a'')) = Returns r1 \<and>
     binary_getquoted libpq_no_memory (self_after r1) = Returns r2 \<and>
     retval r1 = Some (Ref b) \<and> retval r2 = Some (Ref b) \<and>
     buffer (self_after r1) = Some b \<and>
     curexc r1 = None \<and> curexc r2 = None \<and>
     self_after r2 = self_after r1 \<and>
     libpq_calls r2 = [] \<and>
     length (libpq_calls r1 @ libpq_calls r2) \<le> 1"
  using getquoted_twice [of "Binary (PyString ''a'')" "PyString ''a''" "''a''" None
      libpq_sample libpq_no_memory]
  by (simp add: Binary_fields binary_escape_def libpq_sample_def)

text \<open>
  When the escaping routine has no memory in the first call, nothing is cached: the
  first call fails, the second escapes again and returns a literal, and the two calls
  together make two calls into libpq.
\<close>

theorem getquoted_twice_no_memory_counterexample:
  "binary_getquoted libpq_no_memory (Binary (PyString ''a'')) =
     Returns \<lparr>retval = None, curexc = Some PyExc_MemoryError,
              self_after = \<lparr>wrapped = Some (PyString ''a''), buffer = None, conn = None\<rparr>,
              libpq_calls = [PQescapeBytea_call ''a'' None]\<rparr>
   \<and> binary_getquoted libpq_sample
       \<lparr>wrapped = Some (PyString ''a''), buffer = None, conn = None\<rparr> =
     Returns \<lparr>retval = Some (Ref (PyString ([sq] @ ''a'' @ [sq] @ ''::bytea''))),
              curexc = None,
              self_after = \<lparr>wrapped = Some (PyString ''a''),
                buffer = Some (PyString ([sq] @ ''a'' @ [sq] @ ''::bytea'')), conn = None\<rparr>,
              libpq_calls = [PQescapeBytea_call ''a'' (Some (''a'' @ [CHR 0x00], 2))]\<rparr>
   \<and> \<not> length ([PQescapeBytea_call ''a'' None] @
                [PQescapeBytea_call ''a'' (Some (''a'' @ [CHR 0x00], 2))]) \<le> 1"
  by (simp add: Binary_fields binary_getquoted_def binary_str_def binary_quote_def
      binary_escape_def libpq_sample_def libpq_no_memory_def escape_sample_def
      format_bytea_def cstr_def sq_def raise_def Let_def)

subsection \<open>No memory for the escaped buffer\<close>

text \<open>
  C5: when the escaping routine returns \<^verbatim>\<open>NULL\<close>, \<^verbatim>\<open>getquoted\<close> fails with MemoryError
  and leaves the adapter as it was, with no cached literal; and whatever libpq does, a
  call on that adapter leaves the \<^verbatim>\<open>buffer\<close> field either \<^verbatim>\<open>NULL\<close> or holding the whole
  literal built from the result of one successful call of an escaping routine.
\<close>

theorem getquoted_no_memory:
  assumes "buffer self = None" and "wrapped self = Some w"
    and "PyString_Check w \<or> PyBuffer_Check w"
    and "PyObject_AsReadBuffer w = Inr frm" and "the_conn (conn self) = Returns co"
    and "binary_escape lib frm (conn_pgconn co) = (None, call)"
  shows "binary_getquoted lib self =
       Returns \<lparr>retval = None, curexc = Some PyExc_MemoryError,
                self_after = self, libpq_calls = [call]\<rparr> \<and>
     (\<forall>lib' r. binary_getquoted lib' self = Returns r \<longrightarrow>
        buffer (self_after r) = None \<or>
        (\<exists>c to len e. libpq_calls r = [c] \<and> call_result c = Some (to, len) \<and>
           buffer (self_after r) =
             Some (PyString (if 0 < len then format_bytea e to else empty_bytea))))"
proof
  show "binary_getquoted lib self =
       Returns \<lparr>retval = None, curexc = Some PyExc_MemoryError,
                self_after = self, libpq_calls = [call]\<rparr>"
    using assms(1) binary_quote_no_memory [OF assms(2-6)]
    by (simp add: binary_getquoted_fresh raise_def)
next
  show "\<forall>lib' r. binary_getquoted lib' self = Returns r \<longrightarrow>
        buffer (self_after r) = None \<or>
        (\<exists>c to len e. libpq_calls r = [c] \<and> call_result c = Some (to, len) \<and>
           buffer (self_after r) =
             Some (PyString (if 0 < len then format_bytea e to else empty_bytea)))"
  proof (intro allI impI)
    fix lib' r
    assume r: "binary_getquoted lib' self = Returns r"
    with assms(1) obtain q where q: "binary_quote lib' self = Returns q"
      and sa: "self_after r = self_after q" and lc: "libpq_calls r = libpq_calls q"
      by (auto simp: binary_getquoted_fresh split: cres.splits)
    from binary_quote_cases [OF q] assms(1) sa lc
    show "buffer (self_after r) = None \<or>
        (\<exists>c to len e. libpq_calls r = [c] \<and> call_result c = Some (to, len) \<and>
           buffer (self_after r) =
             Some (PyString (if 0 < len then format_bytea e to else empty_bytea)))"
      by auto
  qed
qed

theorem getquoted_no_memory_witness:
  "binary_getquoted libpq_no_memory (Binary (PyString ''a'')) =
     Returns \<lparr>retval = None, curexc = Some PyExc_MemoryError,
              self_after = Binary (PyString ''a''),
              libpq_calls = [PQescapeBytea_call ''a'' None]\<rparr>"
  using getquoted_no_memory [of "Binary (PyString ''a'')" "PyString ''a''" "''a''" None
      libpq_no_memory "PQescapeBytea_call ''a'' None"]
  by (simp add: Binary_fields binary_escape_def libpq_no_memory_def)

subsection \<open>Binding after quoting\<close>

text \<open>
  C6: \<^verbatim>\<open>prepare\<close> changes the \<^verbatim>\<open>conn\<close> field only. On an adapter that holds a literal,
  binding another connection leaves the literal and the wrapped value as they are, and
  the next \<^verbatim>\<open>getquoted\<close> returns that literal with no call into libpq.
\<close>

theorem prepare_keeps_buffer:
  assumes "buffer self = Some b"
  shows "self_after (binary_prepare self [c]) = self\<lparr>conn := Some c\<rparr> \<and>
     buffer (self_after (binary_prepare self [c])) = Some b \<and>
     wrapped (self_after (binary_prepare self [c])) = wrapped self \<and>
     binary_getquoted lib (self_after (binary_prepare self [c])) =
       Returns \<lparr>retval = Some (Ref b), curexc = None,
                self_after = self\<lparr>conn := Some c\<rparr>, libpq_calls = []\<rparr>"
proof -
  have p: "self_after (binary_prepare self [c]) = self\<lparr>conn := Some c\<rparr>"
    by (simp add: binary_prepare_def)
  have b: "buffer (self\<lparr>conn := Some c\<rparr>) = Some b" using assms by simp
  show ?thesis using p b binary_getquoted_cached [OF b, of lib] by simp
qed

theorem prepare_keeps_buffer_witness:
  "binary_getquoted libpq_sample
     (self_after (binary_prepare
        \<lparr>wrapped = Some (PyString ''a''),
         buffer = Some (PyString ([sq] @ ''a'' @ [sq] @ ''::bytea'')), conn = None\<rparr>
        [PyConnection \<lparr>pgconn = Some 1, equote = 1\<rparr>])) =
   Returns \<lparr>retval = Some (Ref (PyString ([sq] @ ''a'' @ [sq] @ ''::bytea''))), curexc = None,
            self_after = \<lparr>wrapped = Some (PyString ''a''),
              buffer = Some (PyString ([sq] @ ''a'' @ [sq] @ ''::bytea'')),
              conn = Some (PyConnection \<lparr>pgconn = Some 1, equote = 1\<rparr>)\<rparr>,
            libpq_calls = []\<rparr>"
  using prepare_keeps_buffer [of "\<lparr>wrapped = Some (PyString ''a''),
         buffer = Some (PyString ([sq] @ ''a'' @ [sq] @ ''::bytea'')), conn = None\<rparr>"
      "PyString ([sq] @ ''a'' @ [sq] @ ''::bytea'')"
      "PyConnection \<lparr>pgconn = Some 1, equote = 1\<rparr>" libpq_sample]
  by (simp add: binary_prepare_def)

subsection \<open>Binding None\<close>

text \<open>
  C7: \<^verbatim>\<open>prepare\<close> with one argument succeeds and stores the argument (lemma
  \<open>binary_prepare_one\<close>), but binding no connection does not lead to context-free
  escaping. \<^verbatim>\<open>prepare(None)\<close> stores the None object, which is not \<^verbatim>\<open>NULL\<close>, and the
  next \<^verbatim>\<open>getquoted\<close> reads \<^verbatim>\<open>pgconn\<close> through a \<^verbatim>\<open>connectionObject*\<close> cast of it, where
  the adapter never bound returns the literal escaped by \<^verbatim>\<open>PQescapeBytea\<close>.
\<close>

theorem prepare_none_getquoted_undefined:
  "binary_prepare (Binary (PyString ''ab'')) [Py_None] =
     \<lparr>retval = Some (Ref Py_None), curexc = None,
      self_after = \<lparr>wrapped = Some (PyString ''ab''), buffer = None, conn = Some Py_None\<rparr>,
      libpq_calls = []\<rparr>
   \<and> binary_getquoted libpq_sample
       \<lparr>wrapped = Some (PyString ''ab''), buffer = None, conn = Some Py_None\<rparr> = Undefined
   \<and> binary_getquoted libpq_sample (Binary (PyString ''ab'')) =
     Returns \<lparr>retval = Some (Ref (PyString ([sq] @ ''ab'' @ [sq] @ ''::bytea''))), curexc = None,
              self_after = \<lparr>wrapped = Some (PyString ''ab''),
                buffer = Some (PyString ([sq] @ ''ab'' @ [sq] @ ''::bytea'')), conn = None\<rparr>,
              libpq_calls = [PQescapeBytea_call ''ab'' (Some (''ab'' @ [CHR 0x00], 3))]\<rparr>"
  by (simp add: Binary_fields binary_prepare_def binary_getquoted_def binary_str_def
      binary_quote_def binary_escape_def libpq_sample_def escape_sample_def format_bytea_def
      cstr_def sq_def Let_def)

subsection \<open>Quoting without a connection\<close>

text \<open>
  C8: an adapter constructed around a readable string or buffer and never passed to
  \<^verbatim>\<open>prepare\<close> returns a literal from \<^verbatim>\<open>getquoted\<close> whenever \<^verbatim>\<open>PQescapeBytea\<close> has memory:
  the literal opens with a quote, not with \<^verbatim>\<open>E\<close>, no connection-aware routine is
  called, and when the literal is computed in this call it comes from the one call of
  \<^verbatim>\<open>PQescapeBytea\<close> on the wrapped bytes.
\<close>

theorem getquoted_unbound:
  assumes "run_ops ops (Binary w) = Some self" and "\<forall>a \<in> set ops. \<not> is_prepare a"
    and "PyString_Check w \<or> PyBuffer_Check w" and "PyObject_AsReadBuffer w = Inr frm"
    and "PQescapeBytea lib frm = Some (to, len)"
  shows "\<exists>r payload.
     binary_getquoted lib self = Returns r \<and>
     retval r = Some (Ref (PyString ([sq] @ payload @ [sq] @ ''::bytea''))) \<and>
     curexc r = None \<and>
     (\<forall>c \<in> set (libpq_calls r). \<not> is_conn_aware c) \<and>
     (buffer self = None \<longrightarrow>
        libpq_calls r = [PQescapeBytea_call frm (Some (to, len))] \<and>
        payload = (if 0 < len then cstr to else []))"
proof -
  have w: "wrapped self = Some w"
    using run_ops_wrapped [OF assms(1)] by (simp add: Binary_fields)
  have inv: "conn self = None \<and>
     (buffer self = None \<or> (\<exists>p. buffer self = Some (PyString ([sq] @ p @ [sq] @ ''::bytea''))))"
    using run_ops_unbound [OF assms(1,2)] by (simp add: Binary_fields)
  show ?thesis
  proof (cases "buffer self")
    case None
    have tc: "the_conn (conn self) = Returns None" using inv by simp
    have esc: "binary_escape lib frm (conn_pgconn None) =
        (Some (to, len), PQescapeBytea_call frm (Some (to, len)))"
      using assms(5) by (simp add: binary_escape_def)
    have lit: "(if 0 < len then format_bytea (conn_equote None) to else empty_bytea) =
        [sq] @ (if 0 < len then cstr to else []) @ [sq] @ ''::bytea''"
      by (simp add: format_bytea_def empty_bytea_def)
    show ?thesis
      using binary_getquoted_escaped [OF None w assms(3,4) tc esc] None lit
      by simp
  next
    case (Some b)
    with inv obtain p where p: "buffer self = Some (PyString ([sq] @ p @ [sq] @ ''::bytea''))"
      by auto
    show ?thesis
      using binary_getquoted_cached [OF p, of lib] p by simp
  qed
qed

theorem getquoted_unbound_witness:
  "\<exists>r payload.
     binary_getquoted libpq_sample (Binary (PyString ''a'')) = Returns r \<and>
     retval r = Some (Ref (PyString ([sq] @ payload @ [sq] @ ''::bytea''))) \<and>
     curexc r = None \<and>
     (\<forall>c \<in> set (libpq_calls r). \<not> is_conn_aware c) \<and>
     libpq_calls r = [PQescapeBytea_call ''a'' (Some (''a'' @ [CHR 0x00], 2))] \<and>
     payload = ''a''"
  using getquoted_unbound [of "[Op_conform [isqlquoteType]]" "PyString ''a''"
      "Binary (PyString ''a'')" "''a''" libpq_sample "''a'' @ [CHR 0x00]" 2]
  by (simp add: Binary_fields binary_conform_def libpq_sample_def escape_sample_def
      cstr_def sq_def)

subsection \<open>The capability probe\<close>

text \<open>
  C9: \<^verbatim>\<open>__conform__\<close> with one argument returns the adapter itself when the argument is
  the ISQLQuote type object, and None for every other argument; the adapter is not
  changed. Over all argument tuples, the adapter itself is returned exactly for the
  tuple holding the ISQLQuote type object alone.
\<close>

theorem conform_isqlquote:
  "binary_conform self [proto] =
     \<lparr>retval = Some (if proto = isqlquoteType then Ref_self else Ref Py_None),
      curexc = None, self_after = self, libpq_calls = []\<rparr> \<and>
   (retval (binary_conform self args) = Some Ref_self) = (args = [isqlquoteType])"
proof
  show "binary_conform self [proto] =
     \<lparr>retval = Some (if proto = isqlquoteType then Ref_self else Ref Py_None),
      curexc = None, self_after = self, libpq_calls = []\<rparr>"
    by (simp add: binary_conform_def)
next
  show "(retval (binary_conform self args) = Some Ref_self) = (args = [isqlquoteType])"
  proof (cases args)
    case Nil
    then show ?thesis by (simp add: binary_conform_def raise_def)
  next
    case (Cons p rest)
    show ?thesis
    proof (cases rest)
      case Nil
      with Cons show ?thesis by (simp add: binary_conform_def)
    next
      case (Cons p' rest')
      with \<open>args = p # rest\<close> show ?thesis by (simp add: binary_conform_def raise_def)
    qed
  qed
qed

theorem conform_isqlquote_witness:
  "retval (binary_conform (Binary (PyString ''a'')) [isqlquoteType]) = Some Ref_self \<and>
   retval (binary_conform (Binary (PyString ''a'')) [PyTypeObject ''str'']) = Some (Ref Py_None)"
  using conform_isqlquote [of "Binary (PyString ''a'')" isqlquoteType]
    conform_isqlquote [of "Binary (PyString ''a'')" "PyTypeObject ''str''"]
  by (simp add: isqlquoteType_def)

subsection \<open>The wrapped value\<close>

text \<open>
  C10: after any sequence of \<^verbatim>\<open>prepare\<close>, \<^verbatim>\<open>getquoted\<close>, \<^verbatim>\<open>str()\<close> and \<^verbatim>\<open>__conform__\<close>
  calls on an adapter, the \<^verbatim>\<open>wrapped\<close> field is the object given at construction.
\<close>

theorem wrapped_never_replaced:
  assumes "run_ops ops (Binary x) = Some self"
  shows "wrapped self = Some x"
  using run_ops_wrapped [OF assms] by (simp add: Binary_fields)

theorem wrapped_never_replaced_witness:
  "run_ops [Op_prepare [PyConnection \<lparr>pgconn = Some 1, equote = 1\<rparr>], Op_getquoted libpq_sample,
            Op_str libpq_sample, Op_conform [isqlquoteType]] (Binary (PyString ''a'')) =
     Some \<lparr>wrapped = Some (PyString ''a''),
           buffer = Some (PyString (''E'' @ [sq] @ ''a'' @ [sq] @ ''::bytea'')),
           conn = Some (PyConnection \<lparr>pgconn = Some 1, equote = 1\<rparr>)\<rparr>
   \<and> wrapped \<lparr>wrapped = Some (PyString ''a''),
           buffer = Some (PyString (''E'' @ [sq] @ ''a'' @ [sq] @ ''::bytea'')),
           conn = Some (PyConnection \<lparr>pgconn = Some 1, equote = 1\<rparr>)\<rparr> = Some (PyString ''a'')"
proof -
  have run: "run_ops [Op_prepare [PyConnection \<lparr>pgconn = Some 1, equote = 1\<rparr>],
            Op_getquoted libpq_sample,
            Op_str libpq_sample, Op_conform [isqlquoteType]] (Binary (PyString ''a'')) =
     Some \<lparr>wrapped = Some (PyString ''a''),
           buffer = Some (PyString (''E'' @ [sq] @ ''a'' @ [sq] @ ''::bytea'')),
           conn = Some (PyConnection \<lparr>pgconn = Some 1, equote = 1\<rparr>)\<rparr>"
    by (simp add: Binary_fields binary_prepare_def binary_getquoted_def binary_str_def
        binary_quote_def binary_escape_def binary_conform_def libpq_sample_def
        escape_sample_def format_bytea_def cstr_def sq_def Let_def)
  show ?thesis using run wrapped_never_replaced [OF run] by simp
qed

end
